theory Spec2Isabelle
  imports Main "HOL-Library.Word"
begin

unbundle bit_operations_syntax

section \<open>Data model of the Windows runner\<close>

text \<open>
  The runner is glue code around external collaborators (the base window class
  \<open>Win32Window\<close>, the rendering engine, the plugins, the operating system).
  Every call that leaves the two source files is recorded as an event in a trace
  carried by the window object, and every value that comes back from such a call
  is read from an environment record. The control flow of the source functions
  is what the definitions below reproduce.
\<close>

subsection \<open>Platform types and constants\<close>

type_synonym UINT = "32 word"
type_synonym HWND = "64 word"
type_synonym WPARAM = "64 word"
type_synonym LPARAM = "64 word"
type_synonym LRESULT = "64 word"
type_synonym LONG = "32 word"
type_synonym SHORT = "16 word"

text \<open>Message and virtual-key numbers of the Windows SDK header \<open>winuser.h\<close>.\<close>

definition WM_CLOSE :: UINT where
  "WM_CLOSE = 0x0010"

definition WM_FONTCHANGE :: UINT where
  "WM_FONTCHANGE = 0x001D"

definition VK_MENU :: int where
  "VK_MENU = 0x12"

record RECT =
  rect_left :: LONG
  rect_top :: LONG
  rect_right :: LONG
  rect_bottom :: LONG

text \<open>The four parameters of a raw window message.\<close>

record wmsg =
  hwnd :: HWND
  message :: UINT
  wparam :: WPARAM
  lparam :: LPARAM

subsection \<open>Engine-side handles\<close>

datatype FlutterEngine = FlutterEngine nat

datatype FlutterView = FlutterView (GetNativeWindow: HWND)

datatype registrar = Registrar nat

datatype EncodableValue = EncodableValue nat

datatype MethodResult = MethodResult nat

text \<open>
  \<open>flutter::FlutterViewController\<close>: the accessors \<open>engine()\<close> and \<open>view()\<close> return raw
  pointers, which may be null.
\<close>

record FlutterViewController =
  engine :: "FlutterEngine option"
  view :: "FlutterView option"

subsection \<open>Observable events\<close>

text \<open>The six registration entry points of \<open>generated_plugin_registrant.cc\<close>.\<close>

datatype plugin_entry =
    AudioplayersWindowsPluginRegisterWithRegistrar
  | PasteboardPluginRegisterWithRegistrar
  | PermissionHandlerWindowsPluginRegisterWithRegistrar
  | SystemTrayPluginRegisterWithRegistrar
  | UrlLauncherWindowsRegisterWithRegistrar
  | WindowsSingleInstancePluginRegisterWithRegistrar

datatype event =
    Call_Win32Window_OnCreate
  | Call_GetClientArea
  | Construct_FlutterViewController LONG LONG
  | Call_GetRegistrarForPlugin string
  | Call_plugin_entry plugin_entry registrar
  | Call_SetChildContent HWND
  | Call_SetNextFrameCallback
  | Call_ForceRedraw
  | Call_Show
  | Destroy_FlutterViewController FlutterViewController
  | Call_Win32Window_OnDestroy
  | Call_HandleTopLevelWindowProc wmsg
  | Call_ReloadSystemFonts
  | Call_GetAsyncKeyState int
  | Call_messenger
  | Call_InvokeMethod string string "EncodableValue option" "MethodResult option"
  | Call_Win32Window_MessageHandler wmsg

subsection \<open>The window object and its environment\<close>

text \<open>
  \<open>project\<close> holds the \<open>dart_entrypoint_arguments()\<close> of the member \<open>project_\<close>;
  \<open>flutter_controller\<close> is the \<open>std::unique_ptr\<close> member \<open>flutter_controller_\<close>
  (\<open>None\<close> is the empty pointer); \<open>visible\<close> and \<open>trace\<close> belong to the model:
  whether the native window is shown, and the calls made so far.
\<close>

record FlutterWindow =
  project :: "string list"
  flutter_controller :: "FlutterViewController option"
  visible :: bool
  trace :: "event list"

text \<open>What the external collaborators answer.\<close>

record env =
  Win32Window_OnCreate_result :: bool
  GetClientArea_result :: RECT
  make_FlutterViewController :: "LONG \<Rightarrow> LONG \<Rightarrow> string list \<Rightarrow> FlutterViewController"
  GetRegistrarForPlugin :: "FlutterEngine \<Rightarrow> string \<Rightarrow> registrar"
  HandleTopLevelWindowProc :: "FlutterViewController \<Rightarrow> wmsg \<Rightarrow> LRESULT option"
  GetAsyncKeyState :: "int \<Rightarrow> SHORT"
  Win32Window_MessageHandler_result :: "wmsg \<Rightarrow> LRESULT"

text \<open>Dereferencing a null pointer is undefined behaviour; the model stops with an error.\<close>

datatype error = NullPointerDereference

definition emit :: "event \<Rightarrow> FlutterWindow \<Rightarrow> FlutterWindow" where
  "emit ev w = w\<lparr>trace := trace w @ [ev]\<rparr>"

text \<open>
  The constructor \<open>FlutterWindow::FlutterWindow(project)\<close> stores the project and leaves
  \<open>flutter_controller_\<close> empty; the native window is not shown yet.
\<close>

definition FlutterWindow_ctor :: "string list \<Rightarrow> FlutterWindow" where
  "FlutterWindow_ctor args =
     \<lparr>project = args, flutter_controller = None, visible = False, trace = []\<rparr>"

section \<open>Plugin registrant\<close>

text \<open>
  \<open>registry->GetRegistrarForPlugin(name)\<close> is evaluated first, then the plugin's entry
  point is called with the registrar it returned.
\<close>

definition register_plugin ::
  "(string \<Rightarrow> registrar) \<Rightarrow> plugin_entry \<Rightarrow> string \<Rightarrow> event list \<Rightarrow> event list" where
  "register_plugin registry entry name tr =
     (let r = registry name;
          tr1 = tr @ [Call_GetRegistrarForPlugin name]
      in tr1 @ [Call_plugin_entry entry r])"

definition RegisterPlugins :: "(string \<Rightarrow> registrar) \<Rightarrow> event list \<Rightarrow> event list" where
  "RegisterPlugins registry tr0 =
     (let tr1 = register_plugin registry AudioplayersWindowsPluginRegisterWithRegistrar
                  ''AudioplayersWindowsPlugin'' tr0;
          tr2 = register_plugin registry PasteboardPluginRegisterWithRegistrar
                  ''PasteboardPlugin'' tr1;
          tr3 = register_plugin registry PermissionHandlerWindowsPluginRegisterWithRegistrar
                  ''PermissionHandlerWindowsPlugin'' tr2;
          tr4 = register_plugin registry SystemTrayPluginRegisterWithRegistrar
                  ''SystemTrayPlugin'' tr3;
          tr5 = register_plugin registry UrlLauncherWindowsRegisterWithRegistrar
                  ''UrlLauncherWindows'' tr4;
          tr6 = register_plugin registry WindowsSingleInstancePluginRegisterWithRegistrar
                  ''WindowsSingleInstancePlugin'' tr5
      in tr6)"

section \<open>Native window controller\<close>

subsection \<open>First-frame callback\<close>

text \<open>
  The loop of the callback over the arguments, with the local \<open>start_minimized\<close> as
  accumulator; \<open>break\<close> leaves the loop at the first match.
\<close>

fun args_loop :: "string list \<Rightarrow> bool \<Rightarrow> bool" where
  "args_loop [] start_minimized = start_minimized"
| "args_loop (arg # args) start_minimized =
     (if arg = ''--start-minimized'' then True else args_loop args start_minimized)"

text \<open>
  Modelled from the spec: \<open>Win32Window::Show\<close> is not among the sources; the spec says
  that it makes the window visible.
\<close>

definition Show :: "FlutterWindow \<Rightarrow> FlutterWindow" where
  "Show w = (emit Call_Show w)\<lparr>visible := True\<rparr>"

definition next_frame_callback :: "FlutterWindow \<Rightarrow> FlutterWindow" where
  "next_frame_callback w =
     (let start_minimized = args_loop (project w) False
      in if \<not> start_minimized then Show w else w)"

subsection \<open>OnCreate\<close>

text \<open>
  The assignment of the \<open>std::make_unique\<close> result to \<open>flutter_controller_\<close> first
  constructs the new controller, then stores it and destroys the controller that the
  member held before, if any.
\<close>

definition OnCreate :: "env \<Rightarrow> FlutterWindow \<Rightarrow> bool \<times> FlutterWindow" where
  "OnCreate e w0 =
     (let w1 = emit Call_Win32Window_OnCreate w0 in
      if \<not> Win32Window_OnCreate_result e then (False, w1)
      else
        let frame = GetClientArea_result e;
            w2 = emit Call_GetClientArea w1;
            width = rect_right frame - rect_left frame;
            height = rect_bottom frame - rect_top frame;
            c = make_FlutterViewController e width height (project w2);
            w3 = emit (Construct_FlutterViewController width height) w2;
            w4 = (case flutter_controller w3 of
                    Some old \<Rightarrow> emit (Destroy_FlutterViewController old) w3
                  | None \<Rightarrow> w3)\<lparr>flutter_controller := Some c\<rparr>
        in case engine c of
             None \<Rightarrow> (False, w4)
           | Some eng \<Rightarrow>
               (case view c of
                  None \<Rightarrow> (False, w4)
                | Some v \<Rightarrow>
                    let w5 = w4\<lparr>trace := RegisterPlugins (GetRegistrarForPlugin e eng) (trace w4)\<rparr>;
                        w6 = emit (Call_SetChildContent (GetNativeWindow v)) w5;
                        w7 = emit Call_SetNextFrameCallback w6;
                        w8 = emit Call_ForceRedraw w7
                    in (True, w8)))"

subsection \<open>OnDestroy\<close>

text \<open>
  The base routine \<open>Win32Window::OnDestroy\<close> is not among the sources; its call is
  recorded.
\<close>

definition Win32Window_OnDestroy :: "FlutterWindow \<Rightarrow> FlutterWindow" where
  "Win32Window_OnDestroy w = emit Call_Win32Window_OnDestroy w"

definition OnDestroy :: "FlutterWindow \<Rightarrow> FlutterWindow" where
  "OnDestroy w0 =
     (let w1 = (case flutter_controller w0 of
                  Some c \<Rightarrow> (emit (Destroy_FlutterViewController c) w0)\<lparr>flutter_controller := None\<rparr>
                | None \<Rightarrow> w0)
      in Win32Window_OnDestroy w1)"

subsection \<open>MessageHandler\<close>

text \<open>
  The test \<open>GetAsyncKeyState(VK_MENU) & 0x8000\<close>: the \<open>SHORT\<close> is promoted to \<open>int\<close>
  (sign extension) before the mask is applied.
\<close>

definition alt_test :: "env \<Rightarrow> bool" where
  "alt_test e = ((scast (GetAsyncKeyState e VK_MENU) :: 32 word) AND 0x8000 \<noteq> 0)"

text \<open>The \<open>switch (message)\<close> statement.\<close>

definition MessageHandler_switch :: "env \<Rightarrow> FlutterWindow \<Rightarrow> wmsg \<Rightarrow> error + FlutterWindow" where
  "MessageHandler_switch e w m =
     (if message m = WM_FONTCHANGE then
        (case flutter_controller w of
           None \<Rightarrow> Inl NullPointerDereference
         | Some c \<Rightarrow>
             (case engine c of
                None \<Rightarrow> Inl NullPointerDereference
              | Some eng \<Rightarrow> Inr (emit Call_ReloadSystemFonts w)))
      else if message m = WM_CLOSE then
        (let w1 = emit (Call_GetAsyncKeyState VK_MENU) w in
         if alt_test e then Inr w1
         else
           (case flutter_controller w1 of
              None \<Rightarrow> Inr w1
            | Some c \<Rightarrow>
                (case engine c of
                   None \<Rightarrow> Inr w1
                 | Some eng \<Rightarrow>
                     let w2 = emit Call_messenger w1;
                         w3 = emit (Call_InvokeMethod ''gallevr/window'' ''onWindowHidden''
                                      None None) w2
                     in Inr w3)))
      else Inr w)"

definition MessageHandler :: "env \<Rightarrow> FlutterWindow \<Rightarrow> wmsg \<Rightarrow> error + (LRESULT \<times> FlutterWindow)" where
  "MessageHandler e w0 m =
     (let (result, w1) =
            (case flutter_controller w0 of
               Some c \<Rightarrow> (HandleTopLevelWindowProc e c m, emit (Call_HandleTopLevelWindowProc m) w0)
             | None \<Rightarrow> (None, w0))
      in case result of
           Some r \<Rightarrow> Inr (r, w1)
         | None \<Rightarrow>
             (case MessageHandler_switch e w1 m of
                Inl err \<Rightarrow> Inl err
              | Inr w2 \<Rightarrow>
                  Inr (Win32Window_MessageHandler_result e m,
                       emit (Call_Win32Window_MessageHandler m) w2)))"

section \<open>Reading traces\<close>

text \<open>The events that a call added to the trace.\<close>

definition new_events :: "FlutterWindow \<Rightarrow> FlutterWindow \<Rightarrow> event list" where
  "new_events w w' = drop (length (trace w)) (trace w')"

fun is_InvokeMethod :: "event \<Rightarrow> bool" where
  "is_InvokeMethod (Call_InvokeMethod ch me a r) = True"
| "is_InvokeMethod _ = False"

text \<open>The calls that go through the handle returned by \<open>engine()\<close>.\<close>

fun uses_engine :: "event \<Rightarrow> bool" where
  "uses_engine Call_ReloadSystemFonts = True"
| "uses_engine Call_messenger = True"
| "uses_engine (Call_InvokeMethod ch me a r) = True"
| "uses_engine (Call_GetRegistrarForPlugin n) = True"
| "uses_engine Call_SetNextFrameCallback = True"
| "uses_engine _ = False"

fun plugin_call :: "event \<Rightarrow> (plugin_entry \<times> registrar) option" where
  "plugin_call (Call_plugin_entry p r) = Some (p, r)"
| "plugin_call _ = None"

fun calls_entry :: "plugin_entry \<Rightarrow> event \<Rightarrow> bool" where
  "calls_entry p (Call_plugin_entry q r) = (p = q)"
| "calls_entry p _ = False"

section \<open>Concrete collaborators\<close>

text \<open>
  A controller with the given handles, an environment with fixed answers (a 1280 by 720
  client area, a registry that numbers registrars by the length of the plugin name) and
  a message with the given number, used to run the model.
\<close>

definition demo_controller :: "FlutterEngine option \<Rightarrow> FlutterView option \<Rightarrow> FlutterViewController" where
  "demo_controller eng v = \<lparr>engine = eng, view = v\<rparr>"

definition demo_env :: "bool \<Rightarrow> FlutterViewController \<Rightarrow> LRESULT option \<Rightarrow> SHORT \<Rightarrow> env" where
  "demo_env base_ok c handled key_state =
     \<lparr>Win32Window_OnCreate_result = base_ok,
      GetClientArea_result = \<lparr>rect_left = 0, rect_top = 0, rect_right = 1280, rect_bottom = 720\<rparr>,
      make_FlutterViewController = (\<lambda>width height args. c),
      GetRegistrarForPlugin = (\<lambda>eng name. Registrar (length name)),
      HandleTopLevelWindowProc = (\<lambda>c m. handled),
      GetAsyncKeyState = (\<lambda>vk. key_state),
      Win32Window_MessageHandler_result = (\<lambda>m. 0)\<rparr>"

definition demo_msg :: "UINT \<Rightarrow> wmsg" where
  "demo_msg n = \<lparr>hwnd = 0x1000, message = n, wparam = 0, lparam = 0\<rparr>"

section \<open>Auxiliary facts\<close>

lemma args_loop_iff: "args_loop args b \<longleftrightarrow> ''--start-minimized'' \<in> set args \<or> b"
  by (induction args) auto

text \<open>The mask \<open>0x8000\<close> reads the most significant bit of the key state.\<close>

lemma alt_test_msb: "alt_test e \<longleftrightarrow> bit (GetAsyncKeyState e VK_MENU) 15"
proof -
  have "(0x8000 :: 32 word) = 2 ^ 15" by simp
  then have "alt_test e \<longleftrightarrow> bit (scast (GetAsyncKeyState e VK_MENU) :: 32 word) 15"
    unfolding alt_test_def by (simp only: and_exp_eq_0_iff_not_bit) simp
  then show ?thesis by (simp add: bit_word_scast_iff)
qed

lemma WM_distinct: "WM_FONTCHANGE \<noteq> WM_CLOSE"
  by (simp add: WM_FONTCHANGE_def WM_CLOSE_def)

lemma new_events_append: "trace w' = trace w @ evs \<Longrightarrow> new_events w w' = evs"
  by (simp add: new_events_def)

section \<open>The first-frame callback\<close>

text \<open>
  C1. For every startup-argument sequence, when the first-frame callback runs: if some
  argument equals \<open>--start-minimized\<close> (the whole string, case-sensitive), \<open>Show\<close> is not
  called and the visibility of the window is unchanged; if no argument equals it, \<open>Show\<close>
  is called exactly once and the window is visible afterwards.
\<close>

theorem first_frame_callback_show:
  "(''--start-minimized'' \<in> set (project w) \<longrightarrow>
      next_frame_callback w = w \<and> new_events w (next_frame_callback w) = [] \<and>
      visible (next_frame_callback w) = visible w) \<and>
   (''--start-minimized'' \<notin> set (project w) \<longrightarrow>
      next_frame_callback w = Show w \<and> visible (next_frame_callback w) \<and>
      new_events w (next_frame_callback w) = [Call_Show])"
  by (simp add: next_frame_callback_def args_loop_iff Show_def emit_def new_events_def)

theorem first_frame_callback_show_witness:
  "''--start-minimized'' \<in> set (project (FlutterWindow_ctor [''--verbose'', ''--start-minimized''])) \<and>
   visible (next_frame_callback (FlutterWindow_ctor [''--verbose'', ''--start-minimized''])) = False \<and>
   ''--start-minimized'' \<notin> set (project (FlutterWindow_ctor [''--Start-Minimized'', ''--start-minimized=1''])) \<and>
   visible (next_frame_callback (FlutterWindow_ctor [''--Start-Minimized'', ''--start-minimized=1'']))"
  using first_frame_callback_show [of "FlutterWindow_ctor [''--verbose'', ''--start-minimized'']"]
        first_frame_callback_show [of "FlutterWindow_ctor [''--Start-Minimized'', ''--start-minimized=1'']"]
  by (simp add: FlutterWindow_ctor_def Show_def emit_def)

section \<open>Window creation\<close>

text \<open>
  C2. \<open>OnCreate\<close> returns false if and only if the base window-creation step fails, or the
  engine handle or the view handle of the constructed controller is null; in every other
  case it returns true.
\<close>

theorem OnCreate_false_iff:
  "fst (OnCreate e w) = False \<longleftrightarrow>
     (\<not> Win32Window_OnCreate_result e \<or>
      engine (make_FlutterViewController e
                (rect_right (GetClientArea_result e) - rect_left (GetClientArea_result e))
                (rect_bottom (GetClientArea_result e) - rect_top (GetClientArea_result e))
                (project w)) = None \<or>
      view (make_FlutterViewController e
                (rect_right (GetClientArea_result e) - rect_left (GetClientArea_result e))
                (rect_bottom (GetClientArea_result e) - rect_top (GetClientArea_result e))
                (project w)) = None)"
  by (simp add: OnCreate_def Let_def emit_def split: option.split)

theorem OnCreate_false_iff_witness:
  "fst (OnCreate (demo_env False (demo_controller (Some (FlutterEngine 1)) (Some (FlutterView 2))) None 0)
         (FlutterWindow_ctor [])) = False \<and>
   fst (OnCreate (demo_env True (demo_controller None (Some (FlutterView 2))) None 0)
         (FlutterWindow_ctor [])) = False \<and>
   fst (OnCreate (demo_env True (demo_controller (Some (FlutterEngine 1)) None) None 0)
         (FlutterWindow_ctor [])) = False \<and>
   fst (OnCreate (demo_env True (demo_controller (Some (FlutterEngine 1)) (Some (FlutterView 2))) None 0)
         (FlutterWindow_ctor [])) = True"
  using OnCreate_false_iff
          [of "demo_env False (demo_controller (Some (FlutterEngine 1)) (Some (FlutterView 2))) None 0"
              "FlutterWindow_ctor []"]
        OnCreate_false_iff
          [of "demo_env True (demo_controller None (Some (FlutterView 2))) None 0"
              "FlutterWindow_ctor []"]
        OnCreate_false_iff
          [of "demo_env True (demo_controller (Some (FlutterEngine 1)) None) None 0"
              "FlutterWindow_ctor []"]
        OnCreate_false_iff
          [of "demo_env True (demo_controller (Some (FlutterEngine 1)) (Some (FlutterView 2))) None 0"
              "FlutterWindow_ctor []"]
  by (simp add: demo_env_def demo_controller_def)

text \<open>
  C4, as the spec states it, fails: the controller is stored in \<open>flutter_controller_\<close>
  before its handles are tested, and the failure branch returns without clearing the
  member. With a null engine handle \<open>OnCreate\<close> returns false and the reference still
  holds the controller.
\<close>

theorem OnCreate_null_handle_keeps_controller:
  "Win32Window_OnCreate_result (demo_env True (demo_controller None (Some (FlutterView 2))) None 0) \<and>
   engine (demo_controller None (Some (FlutterView 2))) = None \<and>
   OnCreate (demo_env True (demo_controller None (Some (FlutterView 2))) None 0) (FlutterWindow_ctor []) =
     (False,
      \<lparr>project = [],
       flutter_controller = Some (demo_controller None (Some (FlutterView 2))),
       visible = False,
       trace = [Call_Win32Window_OnCreate, Call_GetClientArea,
                Construct_FlutterViewController 1280 720]\<rparr>) \<and>
   flutter_controller
     (snd (OnCreate (demo_env True (demo_controller None (Some (FlutterView 2))) None 0)
             (FlutterWindow_ctor []))) \<noteq> None"
  by (simp add: OnCreate_def demo_env_def demo_controller_def FlutterWindow_ctor_def emit_def)

text \<open>
  C4, amended. When the base creation step succeeds and the engine handle or the view
  handle of the constructed controller is null, \<open>OnCreate\<close> returns false; the only calls
  made are the base creation step, the client-area query, the construction of the
  controller and, when the reference held a controller before, the destruction of that
  old controller (no plugin registration, child-content attachment, callback wiring or
  redraw), and the stored reference holds the constructed controller.
\<close>

theorem OnCreate_null_handle:
  assumes base: "Win32Window_OnCreate_result e"
    and width: "width = rect_right (GetClientArea_result e) - rect_left (GetClientArea_result e)"
    and height: "height = rect_bottom (GetClientArea_result e) - rect_top (GetClientArea_result e)"
    and c: "c = make_FlutterViewController e width height (project w)"
    and null: "engine c = None \<or> view c = None"
  shows "OnCreate e w =
           (False,
            w\<lparr>flutter_controller := Some c,
              trace := trace w @ [Call_Win32Window_OnCreate, Call_GetClientArea,
                                  Construct_FlutterViewController width height] @
                       (case flutter_controller w of
                          None \<Rightarrow> []
                        | Some old \<Rightarrow> [Destroy_FlutterViewController old])\<rparr>)"
  using assms by (auto simp add: OnCreate_def Let_def emit_def split: option.split)

theorem OnCreate_null_handle_witness:
  "Win32Window_OnCreate_result (demo_env True (demo_controller (Some (FlutterEngine 1)) None) None 0) \<and>
   view (demo_controller (Some (FlutterEngine 1)) None) = None \<and>
   OnCreate (demo_env True (demo_controller (Some (FlutterEngine 1)) None) None 0)
     (FlutterWindow_ctor [''--start-minimized'']) =
     (False,
      \<lparr>project = [''--start-minimized''],
       flutter_controller = Some (demo_controller (Some (FlutterEngine 1)) None),
       visible = False,
       trace = [Call_Win32Window_OnCreate, Call_GetClientArea,
                Construct_FlutterViewController 1280 720]\<rparr>) \<and>
   OnCreate (demo_env True (demo_controller (Some (FlutterEngine 1)) None) None 0)
     ((FlutterWindow_ctor [''--start-minimized''])
        \<lparr>flutter_controller := Some (demo_controller None None)\<rparr>) =
     (False,
      \<lparr>project = [''--start-minimized''],
       flutter_controller = Some (demo_controller (Some (FlutterEngine 1)) None),
       visible = False,
       trace = [Call_Win32Window_OnCreate, Call_GetClientArea,
                Construct_FlutterViewController 1280 720,
                Destroy_FlutterViewController (demo_controller None None)]\<rparr>)"
proof -
  let ?c = "demo_controller (Some (FlutterEngine 1)) None"
  let ?e = "demo_env True ?c None 0"
  let ?w = "FlutterWindow_ctor [''--start-minimized'']"
  let ?w' = "?w\<lparr>flutter_controller := Some (demo_controller None None)\<rparr>"
  have base: "Win32Window_OnCreate_result ?e"
    by (simp add: demo_env_def)
  have width: "(1280 :: LONG) = rect_right (GetClientArea_result ?e) - rect_left (GetClientArea_result ?e)"
    by (simp add: demo_env_def)
  have height: "(720 :: LONG) = rect_bottom (GetClientArea_result ?e) - rect_top (GetClientArea_result ?e)"
    by (simp add: demo_env_def)
  have c: "?c = make_FlutterViewController ?e 1280 720 (project w)" for w
    by (simp add: demo_env_def)
  have null: "engine ?c = None \<or> view ?c = None"
    by (simp add: demo_controller_def)
  have fresh: "OnCreate ?e ?w =
          (False, ?w\<lparr>flutter_controller := Some ?c,
                     trace := trace ?w @ [Call_Win32Window_OnCreate, Call_GetClientArea,
                                          Construct_FlutterViewController 1280 720] @
                              (case flutter_controller ?w of
                                 None \<Rightarrow> []
                               | Some old \<Rightarrow> [Destroy_FlutterViewController old])\<rparr>)"
    by (rule OnCreate_null_handle [OF base width height c null])
  have again: "OnCreate ?e ?w' =
          (False, ?w'\<lparr>flutter_controller := Some ?c,
                     trace := trace ?w' @ [Call_Win32Window_OnCreate, Call_GetClientArea,
                                           Construct_FlutterViewController 1280 720] @
                              (case flutter_controller ?w' of
                                 None \<Rightarrow> []
                               | Some old \<Rightarrow> [Destroy_FlutterViewController old])\<rparr>)"
    by (rule OnCreate_null_handle [OF base width height c null])
  from fresh again show ?thesis
    using base by (simp add: FlutterWindow_ctor_def demo_controller_def)
qed

section \<open>Plugin registration\<close>

lemma RegisterPlugins_trace:
  "RegisterPlugins registry tr = tr @
     [Call_GetRegistrarForPlugin ''AudioplayersWindowsPlugin'',
      Call_plugin_entry AudioplayersWindowsPluginRegisterWithRegistrar
        (registry ''AudioplayersWindowsPlugin''),
      Call_GetRegistrarForPlugin ''PasteboardPlugin'',
      Call_plugin_entry PasteboardPluginRegisterWithRegistrar (registry ''PasteboardPlugin''),
      Call_GetRegistrarForPlugin ''PermissionHandlerWindowsPlugin'',
      Call_plugin_entry PermissionHandlerWindowsPluginRegisterWithRegistrar
        (registry ''PermissionHandlerWindowsPlugin''),
      Call_GetRegistrarForPlugin ''SystemTrayPlugin'',
      Call_plugin_entry SystemTrayPluginRegisterWithRegistrar (registry ''SystemTrayPlugin''),
      Call_GetRegistrarForPlugin ''UrlLauncherWindows'',
      Call_plugin_entry UrlLauncherWindowsRegisterWithRegistrar (registry ''UrlLauncherWindows''),
      Call_GetRegistrarForPlugin ''WindowsSingleInstancePlugin'',
      Call_plugin_entry WindowsSingleInstancePluginRegisterWithRegistrar
        (registry ''WindowsSingleInstancePlugin'')]"
  by (simp add: RegisterPlugins_def register_plugin_def)

lemma OnCreate_success_trace:
  assumes "fst (OnCreate e w)"
  shows "\<exists>c eng v width height.
           flutter_controller (snd (OnCreate e w)) = Some c \<and> engine c = Some eng \<and>
           view c = Some v \<and>
           trace (snd (OnCreate e w)) =
             RegisterPlugins (GetRegistrarForPlugin e eng)
               (trace w @ [Call_Win32Window_OnCreate, Call_GetClientArea,
                           Construct_FlutterViewController width height] @
                          (case flutter_controller w of
                             None \<Rightarrow> []
                           | Some old \<Rightarrow> [Destroy_FlutterViewController old])) @
             [Call_SetChildContent (GetNativeWindow v), Call_SetNextFrameCallback,
              Call_ForceRedraw]"
  using assms
  by (auto simp add: OnCreate_def Let_def emit_def split: if_splits option.splits)

text \<open>A successful \<open>OnCreate\<close> leaves the window in the Created state.\<close>

lemma OnCreate_success_created:
  assumes "fst (OnCreate e w)"
  shows "\<exists>c eng v. flutter_controller (snd (OnCreate e w)) = Some c \<and>
           engine c = Some eng \<and> view c = Some v"
  using OnCreate_success_trace [OF assms] by blast

text \<open>
  C8. Every run of \<open>RegisterPlugins\<close> calls each of the six registration entry points
  exactly once, in the declared order, each with the registrar that the registry returned
  for the name of that plugin; a successful \<open>OnCreate\<close> runs it once against the engine
  of the new controller, whatever the startup arguments are.
\<close>

theorem RegisterPlugins_six_once:
  "List.map_filter plugin_call (drop (length tr) (RegisterPlugins registry tr)) =
     [(AudioplayersWindowsPluginRegisterWithRegistrar, registry ''AudioplayersWindowsPlugin''),
      (PasteboardPluginRegisterWithRegistrar, registry ''PasteboardPlugin''),
      (PermissionHandlerWindowsPluginRegisterWithRegistrar,
         registry ''PermissionHandlerWindowsPlugin''),
      (SystemTrayPluginRegisterWithRegistrar, registry ''SystemTrayPlugin''),
      (UrlLauncherWindowsRegisterWithRegistrar, registry ''UrlLauncherWindows''),
      (WindowsSingleInstancePluginRegisterWithRegistrar,
         registry ''WindowsSingleInstancePlugin'')] \<and>
   (\<forall>p. length (filter (calls_entry p) (drop (length tr) (RegisterPlugins registry tr))) = 1) \<and>
   (fst (OnCreate e w) \<longrightarrow>
      (\<exists>c eng. flutter_controller (snd (OnCreate e w)) = Some c \<and> engine c = Some eng \<and>
         List.map_filter plugin_call (new_events w (snd (OnCreate e w))) =
           [(AudioplayersWindowsPluginRegisterWithRegistrar,
              GetRegistrarForPlugin e eng ''AudioplayersWindowsPlugin''),
            (PasteboardPluginRegisterWithRegistrar, GetRegistrarForPlugin e eng ''PasteboardPlugin''),
            (PermissionHandlerWindowsPluginRegisterWithRegistrar,
              GetRegistrarForPlugin e eng ''PermissionHandlerWindowsPlugin''),
            (SystemTrayPluginRegisterWithRegistrar, GetRegistrarForPlugin e eng ''SystemTrayPlugin''),
            (UrlLauncherWindowsRegisterWithRegistrar,
              GetRegistrarForPlugin e eng ''UrlLauncherWindows''),
            (WindowsSingleInstancePluginRegisterWithRegistrar,
              GetRegistrarForPlugin e eng ''WindowsSingleInstancePlugin'')]))"
proof (intro conjI allI impI)
  show "List.map_filter plugin_call (drop (length tr) (RegisterPlugins registry tr)) =
     [(AudioplayersWindowsPluginRegisterWithRegistrar, registry ''AudioplayersWindowsPlugin''),
      (PasteboardPluginRegisterWithRegistrar, registry ''PasteboardPlugin''),
      (PermissionHandlerWindowsPluginRegisterWithRegistrar,
         registry ''PermissionHandlerWindowsPlugin''),
      (SystemTrayPluginRegisterWithRegistrar, registry ''SystemTrayPlugin''),
      (UrlLauncherWindowsRegisterWithRegistrar, registry ''UrlLauncherWindows''),
      (WindowsSingleInstancePluginRegisterWithRegistrar,
         registry ''WindowsSingleInstancePlugin'')]"
    by (simp add: RegisterPlugins_trace map_filter_simps)
next
  fix p
  show "length (filter (calls_entry p) (drop (length tr) (RegisterPlugins registry tr))) = 1"
    by (cases p) (simp_all add: RegisterPlugins_trace)
next
  assume "fst (OnCreate e w)"
  from OnCreate_success_trace [OF this]
  obtain c eng v width height where
    c: "flutter_controller (snd (OnCreate e w)) = Some c" "engine c = Some eng" and
    tr: "trace (snd (OnCreate e w)) =
             RegisterPlugins (GetRegistrarForPlugin e eng)
               (trace w @ [Call_Win32Window_OnCreate, Call_GetClientArea,
                           Construct_FlutterViewController width height] @
                          (case flutter_controller w of
                             None \<Rightarrow> []
                           | Some old \<Rightarrow> [Destroy_FlutterViewController old])) @
             [Call_SetChildContent (GetNativeWindow v), Call_SetNextFrameCallback,
              Call_ForceRedraw]"
    by blast
  have "List.map_filter plugin_call (new_events w (snd (OnCreate e w))) =
           [(AudioplayersWindowsPluginRegisterWithRegistrar,
              GetRegistrarForPlugin e eng ''AudioplayersWindowsPlugin''),
            (PasteboardPluginRegisterWithRegistrar, GetRegistrarForPlugin e eng ''PasteboardPlugin''),
            (PermissionHandlerWindowsPluginRegisterWithRegistrar,
              GetRegistrarForPlugin e eng ''PermissionHandlerWindowsPlugin''),
            (SystemTrayPluginRegisterWithRegistrar, GetRegistrarForPlugin e eng ''SystemTrayPlugin''),
            (UrlLauncherWindowsRegisterWithRegistrar,
              GetRegistrarForPlugin e eng ''UrlLauncherWindows''),
            (WindowsSingleInstancePluginRegisterWithRegistrar,
              GetRegistrarForPlugin e eng ''WindowsSingleInstancePlugin'')]"
    unfolding new_events_def tr
    by (cases "flutter_controller w") (simp_all add: RegisterPlugins_trace map_filter_simps)
  with c show "\<exists>c eng. flutter_controller (snd (OnCreate e w)) = Some c \<and> engine c = Some eng \<and>
         List.map_filter plugin_call (new_events w (snd (OnCreate e w))) =
           [(AudioplayersWindowsPluginRegisterWithRegistrar,
              GetRegistrarForPlugin e eng ''AudioplayersWindowsPlugin''),
            (PasteboardPluginRegisterWithRegistrar, GetRegistrarForPlugin e eng ''PasteboardPlugin''),
            (PermissionHandlerWindowsPluginRegisterWithRegistrar,
              GetRegistrarForPlugin e eng ''PermissionHandlerWindowsPlugin''),
            (SystemTrayPluginRegisterWithRegistrar, GetRegistrarForPlugin e eng ''SystemTrayPlugin''),
            (UrlLauncherWindowsRegisterWithRegistrar,
              GetRegistrarForPlugin e eng ''UrlLauncherWindows''),
            (WindowsSingleInstancePluginRegisterWithRegistrar,
              GetRegistrarForPlugin e eng ''WindowsSingleInstancePlugin'')]"
    by blast
qed

theorem RegisterPlugins_six_once_witness:
  "fst (OnCreate (demo_env True (demo_controller (Some (FlutterEngine 1)) (Some (FlutterView 2))) None 0)
          (FlutterWindow_ctor [''--start-minimized''])) \<and>
   length (filter (calls_entry SystemTrayPluginRegisterWithRegistrar)
             (drop (length [Call_Win32Window_OnCreate])
                (RegisterPlugins
                   (GetRegistrarForPlugin
                      (demo_env True (demo_controller (Some (FlutterEngine 1)) (Some (FlutterView 2))) None 0)
                      (FlutterEngine 1))
                   [Call_Win32Window_OnCreate]))) = 1 \<and>
   List.map_filter plugin_call
     (new_events (FlutterWindow_ctor [''--start-minimized''])
        (snd (OnCreate (demo_env True (demo_controller (Some (FlutterEngine 1)) (Some (FlutterView 2))) None 0)
                (FlutterWindow_ctor [''--start-minimized''])))) =
     [(AudioplayersWindowsPluginRegisterWithRegistrar,
         Registrar (length ''AudioplayersWindowsPlugin'')),
      (PasteboardPluginRegisterWithRegistrar, Registrar (length ''PasteboardPlugin'')),
      (PermissionHandlerWindowsPluginRegisterWithRegistrar,
         Registrar (length ''PermissionHandlerWindowsPlugin'')),
      (SystemTrayPluginRegisterWithRegistrar, Registrar (length ''SystemTrayPlugin'')),
      (UrlLauncherWindowsRegisterWithRegistrar, Registrar (length ''UrlLauncherWindows'')),
      (WindowsSingleInstancePluginRegisterWithRegistrar,
         Registrar (length ''WindowsSingleInstancePlugin''))]"
proof -
  let ?c = "demo_controller (Some (FlutterEngine 1)) (Some (FlutterView 2))"
  let ?e = "demo_env True ?c None 0"
  let ?w = "FlutterWindow_ctor [''--start-minimized'']"
  note six = RegisterPlugins_six_once
               [of "[Call_Win32Window_OnCreate]" "GetRegistrarForPlugin ?e (FlutterEngine 1)" ?e ?w]
  have ok: "fst (OnCreate ?e ?w)"
    by (simp add: OnCreate_def demo_env_def demo_controller_def Let_def)
  have reg: "GetRegistrarForPlugin ?e eng name = Registrar (length name)" for eng name
    by (simp only: demo_env_def env.simps)
  from six have once:
    "length (filter (calls_entry SystemTrayPluginRegisterWithRegistrar)
       (drop (length [Call_Win32Window_OnCreate])
          (RegisterPlugins (GetRegistrarForPlugin ?e (FlutterEngine 1))
             [Call_Win32Window_OnCreate]))) = 1"
    by blast
  from six ok obtain eng where
    "List.map_filter plugin_call (new_events ?w (snd (OnCreate ?e ?w))) =
       [(AudioplayersWindowsPluginRegisterWithRegistrar,
           GetRegistrarForPlugin ?e eng ''AudioplayersWindowsPlugin''),
        (PasteboardPluginRegisterWithRegistrar, GetRegistrarForPlugin ?e eng ''PasteboardPlugin''),
        (PermissionHandlerWindowsPluginRegisterWithRegistrar,
           GetRegistrarForPlugin ?e eng ''PermissionHandlerWindowsPlugin''),
        (SystemTrayPluginRegisterWithRegistrar, GetRegistrarForPlugin ?e eng ''SystemTrayPlugin''),
        (UrlLauncherWindowsRegisterWithRegistrar,
           GetRegistrarForPlugin ?e eng ''UrlLauncherWindows''),
        (WindowsSingleInstancePluginRegisterWithRegistrar,
           GetRegistrarForPlugin ?e eng ''WindowsSingleInstancePlugin'')]"
    by blast
  then have calls:
    "List.map_filter plugin_call (new_events ?w (snd (OnCreate ?e ?w))) =
       [(AudioplayersWindowsPluginRegisterWithRegistrar,
           Registrar (length ''AudioplayersWindowsPlugin'')),
        (PasteboardPluginRegisterWithRegistrar, Registrar (length ''PasteboardPlugin'')),
        (PermissionHandlerWindowsPluginRegisterWithRegistrar,
           Registrar (length ''PermissionHandlerWindowsPlugin'')),
        (SystemTrayPluginRegisterWithRegistrar, Registrar (length ''SystemTrayPlugin'')),
        (UrlLauncherWindowsRegisterWithRegistrar, Registrar (length ''UrlLauncherWindows'')),
        (WindowsSingleInstancePluginRegisterWithRegistrar,
           Registrar (length ''WindowsSingleInstancePlugin''))]"
    by (simp only: reg)
  from ok once calls show ?thesis
    by (intro conjI)
qed

section \<open>Message routing\<close>

lemma MessageHandler_switch_close:
  "message m = WM_CLOSE \<Longrightarrow>
   MessageHandler_switch e w m =
     Inr (w\<lparr>trace := trace w @ [Call_GetAsyncKeyState VK_MENU] @
           (case flutter_controller w of
              None \<Rightarrow> []
            | Some c \<Rightarrow>
                (case engine c of
                   None \<Rightarrow> []
                 | Some eng \<Rightarrow>
                     if alt_test e then []
                     else [Call_messenger,
                           Call_InvokeMethod ''gallevr/window'' ''onWindowHidden'' None None]))\<rparr>)"
  using WM_distinct
  by (simp add: MessageHandler_switch_def Let_def emit_def split: option.split)

lemma MessageHandler_no_controller:
  assumes "flutter_controller w = None"
  shows "MessageHandler e w m =
           (if message m = WM_FONTCHANGE then Inl NullPointerDereference
            else Inr (Win32Window_MessageHandler_result e m,
                      w\<lparr>trace := trace w @
                          (if message m = WM_CLOSE then [Call_GetAsyncKeyState VK_MENU] else []) @
                          [Call_Win32Window_MessageHandler m]\<rparr>))"
  using assms
  by (simp add: MessageHandler_def MessageHandler_switch_def emit_def Let_def)

text \<open>
  C7. A message that the engine's top-level handler reports as handled is answered with
  the engine's result at once: the only call made is the one to that handler, so neither
  the font-change branch, nor the close-request branch, nor the base handler is reached.
\<close>

theorem MessageHandler_engine_handled:
  assumes "flutter_controller w = Some c"
    and "HandleTopLevelWindowProc e c m = Some r"
  shows "MessageHandler e w m = Inr (r, w\<lparr>trace := trace w @ [Call_HandleTopLevelWindowProc m]\<rparr>)"
  using assms by (simp add: MessageHandler_def emit_def)

theorem MessageHandler_engine_handled_witness:
  "MessageHandler (demo_env True (demo_controller (Some (FlutterEngine 1)) (Some (FlutterView 2))) (Some 7) 0)
     (snd (OnCreate (demo_env True (demo_controller (Some (FlutterEngine 1)) (Some (FlutterView 2))) (Some 7) 0)
             (FlutterWindow_ctor [])))
     (demo_msg WM_FONTCHANGE) =
   Inr (7, (snd (OnCreate (demo_env True (demo_controller (Some (FlutterEngine 1)) (Some (FlutterView 2))) (Some 7) 0)
             (FlutterWindow_ctor [])))
           \<lparr>trace := trace (snd (OnCreate (demo_env True (demo_controller (Some (FlutterEngine 1)) (Some (FlutterView 2))) (Some 7) 0)
             (FlutterWindow_ctor []))) @ [Call_HandleTopLevelWindowProc (demo_msg WM_FONTCHANGE)]\<rparr>)"
proof -
  let ?c = "demo_controller (Some (FlutterEngine 1)) (Some (FlutterView 2))"
  let ?e = "demo_env True ?c (Some 7) 0"
  let ?w = "snd (OnCreate ?e (FlutterWindow_ctor []))"
  have c: "flutter_controller ?w = Some ?c"
    by (simp add: OnCreate_def demo_env_def demo_controller_def emit_def Let_def)
  have h: "HandleTopLevelWindowProc ?e ?c (demo_msg WM_FONTCHANGE) = Some 7"
    by (simp add: demo_env_def)
  show ?thesis
    by (rule MessageHandler_engine_handled [OF c h])
qed

text \<open>
  C3. With an empty controller reference (before creation or after destruction) a
  font-change message is not passed on to the base handler: the branch for
  \<open>WM_FONTCHANGE\<close> calls \<open>flutter_controller_->engine()\<close> without the test that the
  other two uses of the reference have, and dereferences the null pointer.
\<close>

theorem MessageHandler_fontchange_null:
  "MessageHandler (demo_env True (demo_controller (Some (FlutterEngine 1)) (Some (FlutterView 2))) None 0)
     (FlutterWindow_ctor []) (demo_msg WM_FONTCHANGE) = Inl NullPointerDereference \<and>
   MessageHandler (demo_env True (demo_controller (Some (FlutterEngine 1)) (Some (FlutterView 2))) None 0)
     (OnDestroy (snd (OnCreate
        (demo_env True (demo_controller (Some (FlutterEngine 1)) (Some (FlutterView 2))) None 0)
        (FlutterWindow_ctor []))))
     (demo_msg WM_FONTCHANGE) = Inl NullPointerDereference"
  by (simp add: MessageHandler_def MessageHandler_switch_def FlutterWindow_ctor_def demo_msg_def
      OnDestroy_def OnCreate_def Win32Window_OnDestroy_def emit_def demo_env_def
      demo_controller_def Let_def)

text \<open>
  C5. The claim is about message routing, which is in service in the Created state: the
  controller reference and its engine handle are non-null, as they are after every
  successful \<open>OnCreate\<close> (\<open>OnCreate_success_created\<close>). For every close request that the
  engine does not handle in that state: if Alt is not held, exactly one invocation of
  \<open>onWindowHidden\<close> on the channel \<open>gallevr/window\<close> is made, with no arguments and no
  result callback; if Alt is held, none is made; in both cases the message then goes to
  the base handler, whose result is returned.
\<close>

theorem MessageHandler_close:
  assumes "flutter_controller w = Some c"
    and "engine c = Some eng"
    and "HandleTopLevelWindowProc e c m = None"
    and "message m = WM_CLOSE"
  shows "MessageHandler e w m =
           Inr (Win32Window_MessageHandler_result e m,
                w\<lparr>trace := trace w @
                     [Call_HandleTopLevelWindowProc m, Call_GetAsyncKeyState VK_MENU] @
                     (if alt_test e then []
                      else [Call_messenger,
                            Call_InvokeMethod ''gallevr/window'' ''onWindowHidden'' None None]) @
                     [Call_Win32Window_MessageHandler m]\<rparr>)"
  using assms
  by (simp add: MessageHandler_def MessageHandler_switch_close emit_def)

theorem MessageHandler_close_witness:
  "fst (OnCreate (demo_env True (demo_controller (Some (FlutterEngine 1)) (Some (FlutterView 2))) None 0)
          (FlutterWindow_ctor [])) \<and>
   MessageHandler (demo_env True (demo_controller (Some (FlutterEngine 1)) (Some (FlutterView 2))) None 0)
     (snd (OnCreate (demo_env True (demo_controller (Some (FlutterEngine 1)) (Some (FlutterView 2))) None 0)
             (FlutterWindow_ctor [])))
     (demo_msg WM_CLOSE) =
   Inr (0, (snd (OnCreate (demo_env True (demo_controller (Some (FlutterEngine 1)) (Some (FlutterView 2))) None 0)
                   (FlutterWindow_ctor [])))
           \<lparr>trace :=
              trace (snd (OnCreate (demo_env True (demo_controller (Some (FlutterEngine 1)) (Some (FlutterView 2))) None 0)
                            (FlutterWindow_ctor []))) @
              [Call_HandleTopLevelWindowProc (demo_msg WM_CLOSE),
               Call_GetAsyncKeyState VK_MENU, Call_messenger,
               Call_InvokeMethod ''gallevr/window'' ''onWindowHidden'' None None,
               Call_Win32Window_MessageHandler (demo_msg WM_CLOSE)]\<rparr>) \<and>
   fst (OnCreate (demo_env True (demo_controller (Some (FlutterEngine 1)) (Some (FlutterView 2))) None 0x8000)
          (FlutterWindow_ctor [])) \<and>
   MessageHandler (demo_env True (demo_controller (Some (FlutterEngine 1)) (Some (FlutterView 2))) None 0x8000)
     (snd (OnCreate (demo_env True (demo_controller (Some (FlutterEngine 1)) (Some (FlutterView 2))) None 0x8000)
             (FlutterWindow_ctor [])))
     (demo_msg WM_CLOSE) =
   Inr (0, (snd (OnCreate (demo_env True (demo_controller (Some (FlutterEngine 1)) (Some (FlutterView 2))) None 0x8000)
                   (FlutterWindow_ctor [])))
           \<lparr>trace :=
              trace (snd (OnCreate (demo_env True (demo_controller (Some (FlutterEngine 1)) (Some (FlutterView 2))) None 0x8000)
                            (FlutterWindow_ctor []))) @
              [Call_HandleTopLevelWindowProc (demo_msg WM_CLOSE),
               Call_GetAsyncKeyState VK_MENU,
               Call_Win32Window_MessageHandler (demo_msg WM_CLOSE)]\<rparr>)"
proof -
  let ?c = "demo_controller (Some (FlutterEngine 1)) (Some (FlutterView 2))"
  let ?up = "demo_env True ?c None 0"
  let ?down = "demo_env True ?c None 0x8000"
  have ok: "fst (OnCreate (demo_env True ?c None ks) (FlutterWindow_ctor []))" for ks
    by (simp add: OnCreate_def demo_env_def demo_controller_def Let_def)
  have c: "flutter_controller (snd (OnCreate (demo_env True ?c None ks) (FlutterWindow_ctor []))) = Some ?c"
    for ks
    by (simp add: OnCreate_def demo_env_def demo_controller_def emit_def Let_def)
  have eng: "engine ?c = Some (FlutterEngine 1)"
    by (simp add: demo_controller_def)
  have h: "HandleTopLevelWindowProc (demo_env True ?c None ks) ?c (demo_msg WM_CLOSE) = None" for ks
    by (simp add: demo_env_def)
  have m: "message (demo_msg WM_CLOSE) = WM_CLOSE"
    by (simp add: demo_msg_def)
  have r: "Win32Window_MessageHandler_result (demo_env True ?c None ks) (demo_msg WM_CLOSE) = 0" for ks
    by (simp add: demo_env_def)
  have up: "\<not> alt_test ?up"
    by (simp add: alt_test_def demo_env_def)
  have down: "alt_test ?down"
    by (simp add: alt_test_def demo_env_def)
  note released = MessageHandler_close [OF c [of 0] eng h [of 0] m]
  note held = MessageHandler_close [OF c [of "0x8000"] eng h [of "0x8000"] m]
  from released up have first:
    "MessageHandler ?up (snd (OnCreate ?up (FlutterWindow_ctor []))) (demo_msg WM_CLOSE) =
       Inr (0, (snd (OnCreate ?up (FlutterWindow_ctor [])))
               \<lparr>trace := trace (snd (OnCreate ?up (FlutterWindow_ctor []))) @
                  [Call_HandleTopLevelWindowProc (demo_msg WM_CLOSE),
                   Call_GetAsyncKeyState VK_MENU, Call_messenger,
                   Call_InvokeMethod ''gallevr/window'' ''onWindowHidden'' None None,
                   Call_Win32Window_MessageHandler (demo_msg WM_CLOSE)]\<rparr>)"
    by (simp only: r if_False append.simps)
  from held down have second:
    "MessageHandler ?down (snd (OnCreate ?down (FlutterWindow_ctor []))) (demo_msg WM_CLOSE) =
       Inr (0, (snd (OnCreate ?down (FlutterWindow_ctor [])))
               \<lparr>trace := trace (snd (OnCreate ?down (FlutterWindow_ctor []))) @
                  [Call_HandleTopLevelWindowProc (demo_msg WM_CLOSE),
                   Call_GetAsyncKeyState VK_MENU,
                   Call_Win32Window_MessageHandler (demo_msg WM_CLOSE)]\<rparr>)"
    by (simp only: r if_True append.simps)
  from ok [of 0] first ok [of "0x8000"] second show ?thesis
    by (intro conjI)
qed

text \<open>
  C9. In the close-request branch the notification is sent only when the controller
  reference and its engine handle are both non-null; when either is absent, no channel
  invocation is made, the engine handle is not used, and the message still goes to the
  base handler.
\<close>

theorem MessageHandler_close_guard:
  assumes "message m = WM_CLOSE"
    and "\<forall>c. flutter_controller w = Some c \<longrightarrow> HandleTopLevelWindowProc e c m = None"
  shows "\<exists>w'. MessageHandler e w m = Inr (Win32Window_MessageHandler_result e m, w') \<and>
           last (trace w') = Call_Win32Window_MessageHandler m \<and>
           (filter is_InvokeMethod (new_events w w') \<noteq> [] \<longrightarrow>
              (\<exists>c eng. flutter_controller w = Some c \<and> engine c = Some eng)) \<and>
           (flutter_controller w = None \<or>
            (\<exists>c. flutter_controller w = Some c \<and> engine c = None) \<longrightarrow>
              filter is_InvokeMethod (new_events w w') = [] \<and>
              filter uses_engine (new_events w w') = [])"
proof (cases "flutter_controller w")
  case None
  with assms show ?thesis
    by (simp add: MessageHandler_def MessageHandler_switch_close emit_def new_events_def)
next
  case (Some c)
  with assms have "HandleTopLevelWindowProc e c m = None"
    by simp
  with Some assms(1) show ?thesis
    by (cases "engine c")
      (simp_all add: MessageHandler_def MessageHandler_switch_close emit_def new_events_def)
qed

theorem MessageHandler_close_guard_witness:
  "(\<exists>w'. MessageHandler (demo_env True (demo_controller None None) None 0)
            (FlutterWindow_ctor []) (demo_msg WM_CLOSE) = Inr (0, w') \<and>
          filter is_InvokeMethod (new_events (FlutterWindow_ctor []) w') = [] \<and>
          filter uses_engine (new_events (FlutterWindow_ctor []) w') = []) \<and>
   (\<exists>w'. MessageHandler (demo_env True (demo_controller None None) None 0)
            ((FlutterWindow_ctor [])\<lparr>flutter_controller := Some (demo_controller None None)\<rparr>)
            (demo_msg WM_CLOSE) = Inr (0, w') \<and>
          filter is_InvokeMethod
            (new_events ((FlutterWindow_ctor [])\<lparr>flutter_controller := Some (demo_controller None None)\<rparr>) w') = [] \<and>
          filter uses_engine
            (new_events ((FlutterWindow_ctor [])\<lparr>flutter_controller := Some (demo_controller None None)\<rparr>) w') = [])"
proof -
  let ?e = "demo_env True (demo_controller None None) None 0"
  let ?w1 = "FlutterWindow_ctor []"
  let ?w2 = "(FlutterWindow_ctor [])\<lparr>flutter_controller := Some (demo_controller None None)\<rparr>"
  have m: "message (demo_msg WM_CLOSE) = WM_CLOSE"
    by (simp add: demo_msg_def)
  have h: "\<forall>c. flutter_controller w = Some c \<longrightarrow>
             HandleTopLevelWindowProc ?e c (demo_msg WM_CLOSE) = None" for w
    by (simp add: demo_env_def)
  have r: "Win32Window_MessageHandler_result ?e (demo_msg WM_CLOSE) = 0"
    by (simp add: demo_env_def)
  have n1: "flutter_controller ?w1 = None"
    by (simp add: FlutterWindow_ctor_def)
  have n2: "\<exists>c. flutter_controller ?w2 = Some c \<and> engine c = None"
    by (simp add: demo_controller_def)
  from MessageHandler_close_guard [OF m h, of ?w1] n1 r
  have first: "\<exists>w'. MessageHandler ?e ?w1 (demo_msg WM_CLOSE) = Inr (0, w') \<and>
          filter is_InvokeMethod (new_events ?w1 w') = [] \<and>
          filter uses_engine (new_events ?w1 w') = []"
    by auto
  from MessageHandler_close_guard [OF m h, of ?w2] n2 r
  have second: "\<exists>w'. MessageHandler ?e ?w2 (demo_msg WM_CLOSE) = Inr (0, w') \<and>
          filter is_InvokeMethod (new_events ?w2 w') = [] \<and>
          filter uses_engine (new_events ?w2 w') = []"
    by auto
  from first second show ?thesis
    by blast
qed

section \<open>Window destruction\<close>

text \<open>
  C6. From every state, \<open>OnDestroy\<close> empties the controller reference first and calls the
  base destruction routine afterwards: the base routine runs on a window whose reference
  is already empty, and the destruction of the controller, when there was one, precedes
  the base call in the trace.
\<close>

theorem OnDestroy_release_first:
  "\<exists>w1. flutter_controller w1 = None \<and>
         trace w1 = trace w @ (case flutter_controller w of
                                 None \<Rightarrow> []
                               | Some c \<Rightarrow> [Destroy_FlutterViewController c]) \<and>
         OnDestroy w = Win32Window_OnDestroy w1 \<and>
         trace (OnDestroy w) = trace w1 @ [Call_Win32Window_OnDestroy]"
proof (cases "flutter_controller w")
  case None
  then show ?thesis
    by (intro exI [of _ w]) (simp add: OnDestroy_def Win32Window_OnDestroy_def emit_def)
next
  case (Some c)
  then show ?thesis
    by (intro exI [of _ "w\<lparr>flutter_controller := None,
                            trace := trace w @ [Destroy_FlutterViewController c]\<rparr>"])
      (simp add: OnDestroy_def Win32Window_OnDestroy_def emit_def)
qed

text \<open>
  C10. After \<open>OnDestroy\<close> the controller reference is empty, whatever the state before;
  \<open>OnDestroy\<close> is total; on a window whose reference is already empty (never created, or
  destroyed before) it only runs the base teardown and leaves the reference empty.
\<close>

theorem OnDestroy_empty_idempotent:
  "flutter_controller (OnDestroy w) = None \<and>
   (flutter_controller w = None \<longrightarrow>
      OnDestroy w = w\<lparr>trace := trace w @ [Call_Win32Window_OnDestroy]\<rparr>) \<and>
   OnDestroy (OnDestroy w) = (OnDestroy w)\<lparr>trace := trace (OnDestroy w) @ [Call_Win32Window_OnDestroy]\<rparr>"
  by (cases "flutter_controller w")
    (simp_all add: OnDestroy_def Win32Window_OnDestroy_def emit_def)

theorem OnDestroy_empty_idempotent_witness:
  "flutter_controller (FlutterWindow_ctor []) = None \<and>
   OnDestroy (FlutterWindow_ctor []) =
     \<lparr>project = [], flutter_controller = None, visible = False,
      trace = [Call_Win32Window_OnDestroy]\<rparr> \<and>
   OnDestroy (OnDestroy (FlutterWindow_ctor [])) =
     \<lparr>project = [], flutter_controller = None, visible = False,
      trace = [Call_Win32Window_OnDestroy, Call_Win32Window_OnDestroy]\<rparr>"
  using OnDestroy_empty_idempotent [of "FlutterWindow_ctor []"]
  by (simp add: FlutterWindow_ctor_def OnDestroy_def Win32Window_OnDestroy_def emit_def)

end
